theory Spec2Isabelle
  imports Complex_Main "HOL-Library.AList"
begin

section \<open>JavaScript strings, values and numbers\<close>

text \<open>
  The controller and its helpers are JavaScript; the operations of the language they
  rely on are written out here. Strings are ASCII character lists: \<open>trim\<close>,
  \<open>toLowerCase\<close> and \<open>toUpperCase\<close> are modelled on ASCII only.
\<close>

definition isWhiteSpace :: "char \<Rightarrow> bool" where
  "isWhiteSpace c = (c \<in> set [CHR '' '', CHR 0x09, CHR 0x0A, CHR 0x0B, CHR 0x0C, CHR 0x0D])"

text \<open>\<^verbatim>\<open>String.prototype.trim\<close>.\<close>

definition trim :: "string \<Rightarrow> string" where
  "trim s = rev (dropWhile isWhiteSpace (rev (dropWhile isWhiteSpace s)))"

text \<open>
  \<^verbatim>\<open>s.split(sep)\<close> for a one-character separator: the empty string splits into one
  empty piece, and two separators in a row enclose an empty piece.
\<close>

fun split_on :: "char \<Rightarrow> string \<Rightarrow> string list" where
  "split_on sep [] = [[]]"
| "split_on sep (c # cs) =
     (if c = sep then [] # split_on sep cs
      else (case split_on sep cs of [] \<Rightarrow> [[c]] | w # ws \<Rightarrow> (c # w) # ws))"

text \<open>\<^verbatim>\<open>words.join(sep)\<close>.\<close>

fun join :: "string \<Rightarrow> string list \<Rightarrow> string" where
  "join sep [] = []"
| "join sep [w] = w"
| "join sep (w # v # ws) = w @ sep @ join sep (v # ws)"

definition toLowerCaseChar :: "char \<Rightarrow> char" where
  "toLowerCaseChar c =
     (case map_of (zip ''ABCDEFGHIJKLMNOPQRSTUVWXYZ'' ''abcdefghijklmnopqrstuvwxyz'') c of
        Some d \<Rightarrow> d | None \<Rightarrow> c)"

definition toUpperCaseChar :: "char \<Rightarrow> char" where
  "toUpperCaseChar c =
     (case map_of (zip ''abcdefghijklmnopqrstuvwxyz'' ''ABCDEFGHIJKLMNOPQRSTUVWXYZ'') c of
        Some d \<Rightarrow> d | None \<Rightarrow> c)"

definition toLowerCase :: "string \<Rightarrow> string" where
  "toLowerCase s = map toLowerCaseChar s"

definition toUpperCase :: "string \<Rightarrow> string" where
  "toUpperCase s = map toUpperCaseChar s"

text \<open>\<^verbatim>\<open>key.startsWith(prefix)\<close>.\<close>

definition startsWith :: "string \<Rightarrow> string \<Rightarrow> bool" where
  "startsWith s prefix = (take (length prefix) s = prefix)"

text \<open>
  A value of the parsed query string (\<^verbatim>\<open>req.query\<close>): a string, an array (a key given
  more than once) or a nested object (a bracketed key).
\<close>

datatype qval = QStr string | QArr "qval list" | QObj "(string \<times> qval) list"

text \<open>Truthiness: the empty string is the only falsy query value.\<close>

fun truthy :: "qval \<Rightarrow> bool" where
  "truthy (QStr s) = (s \<noteq> [])"
| "truthy (QArr xs) = True"
| "truthy (QObj kvs) = True"

text \<open>\<^verbatim>\<open>String(v)\<close>: an array joins its elements with commas.\<close>

fun toString :: "qval \<Rightarrow> string" where
  "toString (QStr s) = s"
| "toString (QArr xs) = join '','' (map toString xs)"
| "toString (QObj kvs) = ''[object Object]''"

text \<open>
  Numbers. A finite number is the rational it denotes; rounding to a double and
  overflow to infinity are not modelled, and the two zeros are one.
\<close>

datatype jsnum = Num rat | PosInfinity | NegInfinity | NaN

fun js_neg :: "jsnum \<Rightarrow> jsnum" where
  "js_neg (Num a) = Num (- a)"
| "js_neg PosInfinity = NegInfinity"
| "js_neg NegInfinity = PosInfinity"
| "js_neg NaN = NaN"

definition js_add :: "jsnum \<Rightarrow> jsnum \<Rightarrow> jsnum" where
  "js_add a b =
     (if a = NaN \<or> b = NaN then NaN
      else
        (case (a, b) of
           (Num x, Num y) \<Rightarrow> Num (x + y)
         | (Num x, _) \<Rightarrow> b
         | (_, Num y) \<Rightarrow> a
         | _ \<Rightarrow> if a = b then a else NaN))"

definition js_sub :: "jsnum \<Rightarrow> jsnum \<Rightarrow> jsnum" where
  "js_sub a b = js_add a (js_neg b)"

definition js_sign :: "jsnum \<Rightarrow> int" where
  "js_sign a =
     (case a of
        Num r \<Rightarrow> (if r < 0 then - 1 else if r = 0 then 0 else 1)
      | PosInfinity \<Rightarrow> 1
      | NegInfinity \<Rightarrow> - 1
      | NaN \<Rightarrow> 0)"

definition js_mul :: "jsnum \<Rightarrow> jsnum \<Rightarrow> jsnum" where
  "js_mul a b =
     (if a = NaN \<or> b = NaN then NaN
      else
        (case (a, b) of
           (Num x, Num y) \<Rightarrow> Num (x * y)
         | _ \<Rightarrow>
             (let s = js_sign a * js_sign b
              in if s = 0 then NaN else if s < 0 then NegInfinity else PosInfinity)))"

text \<open>
  The conversion of a string to a number (\<^verbatim>\<open>Number(s)\<close>, and what \<^verbatim>\<open>-\<close> and \<^verbatim>\<open>*\<close>
  apply to a string operand): surrounding white space is dropped, the empty string
  is 0, then a hexadecimal, octal or binary literal, or an optionally signed decimal
  literal with optional fraction and exponent, or \<^verbatim>\<open>Infinity\<close>; anything else is NaN.
\<close>

definition digitValue :: "char \<Rightarrow> nat option" where
  "digitValue c =
     map_of
       [(CHR ''0'', 0), (CHR ''1'', 1), (CHR ''2'', 2), (CHR ''3'', 3), (CHR ''4'', 4),
        (CHR ''5'', 5), (CHR ''6'', 6), (CHR ''7'', 7), (CHR ''8'', 8), (CHR ''9'', 9),
        (CHR ''a'', 10), (CHR ''b'', 11), (CHR ''c'', 12), (CHR ''d'', 13), (CHR ''e'', 14),
        (CHR ''f'', 15), (CHR ''A'', 10), (CHR ''B'', 11), (CHR ''C'', 12), (CHR ''D'', 13),
        (CHR ''E'', 14), (CHR ''F'', 15)] c"

fun digitsValue :: "nat \<Rightarrow> nat \<Rightarrow> string \<Rightarrow> nat option" where
  "digitsValue base acc [] = Some acc"
| "digitsValue base acc (c # cs) =
     (case digitValue c of
        None \<Rightarrow> None
      | Some d \<Rightarrow> if d < base then digitsValue base (acc * base + d) cs else None)"

definition natLiteral :: "nat \<Rightarrow> string \<Rightarrow> nat option" where
  "natLiteral base s = (if s = [] then None else digitsValue base 0 s)"

definition isDigit :: "char \<Rightarrow> bool" where
  "isDigit c = (c \<in> set ''0123456789'')"

definition decimalValue :: "string \<Rightarrow> nat" where
  "decimalValue ds =
     foldl (\<lambda>acc c. acc * 10 + (case digitValue c of Some d \<Rightarrow> d | None \<Rightarrow> 0)) 0 ds"

definition nonDecimalLiteral :: "string \<Rightarrow> nat option" where
  "nonDecimalLiteral t =
     (case t of
        z # x # ds \<Rightarrow>
          if z \<noteq> CHR ''0'' then None
          else if x = CHR ''x'' \<or> x = CHR ''X'' then natLiteral 16 ds
          else if x = CHR ''o'' \<or> x = CHR ''O'' then natLiteral 8 ds
          else if x = CHR ''b'' \<or> x = CHR ''B'' then natLiteral 2 ds
          else None
      | _ \<Rightarrow> None)"

definition exponentPart :: "string \<Rightarrow> int option" where
  "exponentPart r =
     (case r of
        [] \<Rightarrow> Some 0
      | e # x \<Rightarrow>
          if e = CHR ''e'' \<or> e = CHR ''E'' then
            (case x of
               [] \<Rightarrow> None
             | sg # ds \<Rightarrow>
                 if sg = CHR ''+'' then map_option int (natLiteral 10 ds)
                 else if sg = CHR ''-'' then map_option (\<lambda>n. - int n) (natLiteral 10 ds)
                 else map_option int (natLiteral 10 x))
          else None)"

definition pow10 :: "int \<Rightarrow> rat" where
  "pow10 e = (if 0 \<le> e then 10 ^ nat e else 1 / 10 ^ nat (- e))"

definition unsignedDecimal :: "string \<Rightarrow> jsnum" where
  "unsignedDecimal u =
     (if u = ''Infinity'' then PosInfinity
      else
        let ip = takeWhile isDigit u;
            r1 = dropWhile isDigit u;
            fp = (case r1 of [] \<Rightarrow> []
                  | d # r \<Rightarrow> if d = CHR ''.'' then takeWhile isDigit r else []);
            r2 = (case r1 of [] \<Rightarrow> []
                  | d # r \<Rightarrow> if d = CHR ''.'' then dropWhile isDigit r else r1)
        in if ip = [] \<and> fp = [] then NaN
           else
             (case exponentPart r2 of
                None \<Rightarrow> NaN
              | Some e \<Rightarrow>
                  Num ((of_nat (decimalValue ip) + of_nat (decimalValue fp) / 10 ^ length fp)
                       * pow10 e)))"

definition stringToNumber :: "string \<Rightarrow> jsnum" where
  "stringToNumber s =
     (let t = trim s
      in if t = [] then Num 0
         else
           (case nonDecimalLiteral t of
              Some n \<Rightarrow> Num (of_nat n)
            | None \<Rightarrow>
                (case t of
                   [] \<Rightarrow> Num 0
                 | sg # u \<Rightarrow>
                     if sg = CHR ''+'' then unsignedDecimal u
                     else if sg = CHR ''-'' then js_neg (unsignedDecimal u)
                     else unsignedDecimal t)))"

text \<open>A non-string operand is converted through its string form.\<close>

definition toNumber :: "qval \<Rightarrow> jsnum" where
  "toNumber v = stringToNumber (toString v)"

text \<open>
  A destructured parameter with a default (\<^verbatim>\<open>const { page = 1, perPage = 10 } = req.query\<close>)
  is the default number when the key is undefined and the raw query value otherwise.
\<close>

datatype jsarg = NumArg jsnum | QueryArg qval

fun argToNumber :: "jsarg \<Rightarrow> jsnum" where
  "argToNumber (NumArg n) = n"
| "argToNumber (QueryArg v) = toNumber v"

text \<open>
  Objects are association lists: \<open>map_of\<close> reads a property, \<open>AList.update\<close> assigns
  one (in place when the key exists, appended otherwise) and \<open>AList.clearjunk\<close> lists the
  entries, each key once. The order of integer-like keys is not modelled.
\<close>

type_synonym 'a obj = "(string \<times> 'a) list"

definition entries :: "'a obj \<Rightarrow> (string \<times> 'a) list" where
  "entries ob = AList.clearjunk ob"

definition assign :: "'a obj \<Rightarrow> (string \<times> 'a) \<Rightarrow> 'a obj" where
  "assign ob kv = AList.update (fst kv) (snd kv) ob"


section \<open>Errors and messages\<close>

text \<open>
  The status codes and messages of \<^verbatim>\<open>utils/constants/constants.js\<close>, the module the
  controller and the helpers import.
\<close>

definition OK :: int where "OK = 200"
definition CREATED :: int where "CREATED = 201"
definition BAD_REQUEST :: int where "BAD_REQUEST = 400"
definition NOT_FOUND :: int where "NOT_FOUND = 404"
definition INTERNAL_SERVER_ERROR :: int where "INTERNAL_SERVER_ERROR = 500"

definition ErrorMessages_INTERNAL_SERVER_ERROR :: string where
  "ErrorMessages_INTERNAL_SERVER_ERROR = ''Internal Server Error''"
definition ErrorMessages_VALIDATION :: string where
  "ErrorMessages_VALIDATION = ''Validation Error''"
definition ErrorMessages_NOT_FOUND :: string where
  "ErrorMessages_NOT_FOUND = ''Resource not found''"
definition SuccessMessages_CREATED :: string where
  "SuccessMessages_CREATED = ''Resource created successfully''"
definition SuccessMessages_RETRIEVED :: string where
  "SuccessMessages_RETRIEVED = ''Resource retrieved successfully''"

text \<open>
  One entry of an error's \<^verbatim>\<open>errors\<close> list. \<^verbatim>\<open>checkDuplication\<close> writes the keys
  \<^verbatim>\<open>field\<close> and \<^verbatim>\<open>messages\<close>; the validation paths write \<^verbatim>\<open>field\<close>,
  \<^verbatim>\<open>message\<close> and \<^verbatim>\<open>location\<close>.
\<close>

record field_error =
  fe_field :: string
  fe_messages :: "string option"
  fe_message :: "string option"
  fe_location :: "string option"

text \<open>
  A thrown value, with the properties the code reads: the constructor's name, \<^verbatim>\<open>name\<close>,
  \<^verbatim>\<open>code\<close>, \<^verbatim>\<open>keyPattern\<close>, \<^verbatim>\<open>message\<close>, \<^verbatim>\<open>status\<close>, \<^verbatim>\<open>errors\<close> and
  \<^verbatim>\<open>stack\<close>. \<open>None\<close> is an undefined (or null) property; a \<^verbatim>\<open>code\<close> that
  is not a number is \<open>None\<close> as well.
\<close>

record js_error =
  err_constructor :: string
  err_name :: string
  err_code :: "int option"
  err_keyPattern :: "int obj option"
  err_message :: "string option"
  err_status :: "int option"
  err_errors :: "field_error list option"
  err_stack :: "string option"

text \<open>
  The trace text the runtime records when an error is constructed. The code never
  inspects it; one fixed string stands for it.
\<close>

definition capturedStack :: string where
  "capturedStack = ''Error at <anonymous>''"

text \<open>
  \<^verbatim>\<open>new APIError({ message, status, errors = null, stack = null })\<close> of
  \<^verbatim>\<open>utils/APIError.js\<close> (its timestamp is left out).
\<close>

definition APIError ::
  "string option \<Rightarrow> int option \<Rightarrow> field_error list option \<Rightarrow> string option \<Rightarrow> js_error" where
  "APIError msg st errs stk =
     \<lparr> err_constructor = ''APIError'',
       err_name = ''APIError'',
       err_code = None,
       err_keyPattern = None,
       err_message = Some (case msg of None \<Rightarrow> [] | Some t \<Rightarrow> t),
       err_status = st,
       err_errors = errs,
       err_stack =
         Some (case stk of None \<Rightarrow> capturedStack
               | Some t \<Rightarrow> if t \<noteq> [] then t else capturedStack) \<rparr>"

text \<open>The \<^verbatim>\<open>TypeError\<close> the runtime raises (a call of a missing method, \<^verbatim>\<open>Object.keys(undefined)\<close>).\<close>

definition TypeError :: "string \<Rightarrow> js_error" where
  "TypeError msg =
     \<lparr> err_constructor = ''TypeError'',
       err_name = ''TypeError'',
       err_code = None,
       err_keyPattern = None,
       err_message = Some msg,
       err_status = None,
       err_errors = None,
       err_stack = Some capturedStack \<rparr>"

section \<open>helpers/services/model-helpers.js\<close>

text \<open>
  \<^verbatim>\<open>arrayOmitter(arr, values)\<close>: for each element of \<open>values\<close>, \<^verbatim>\<open>indexOf\<close> finds its
  first position in \<open>arr\<close> and \<^verbatim>\<open>splice(index, 1)\<close> removes that one position.
\<close>

definition arrayOmitter :: "'a list \<Rightarrow> 'a list \<Rightarrow> 'a list" where
  "arrayOmitter arr vals = fold remove1 vals arr"

text \<open>\<^verbatim>\<open>word.charAt(0).toUpperCase() + word.slice(1)\<close>.\<close>

definition capitalize :: "string \<Rightarrow> string" where
  "capitalize w = (case w of [] \<Rightarrow> [] | c # cs \<Rightarrow> toUpperCaseChar c # cs)"

text \<open>The message of one duplicate entry, as the template string of \<^verbatim>\<open>checkDuplication\<close> builds it.\<close>

definition duplicateMessage :: "string \<Rightarrow> string" where
  "duplicateMessage key =
     join '' '' (map capitalize (split_on CHR ''_'' (toLowerCase key))) @ '' already in use.''"

definition duplicateEntry :: "string \<Rightarrow> field_error" where
  "duplicateEntry key =
     \<lparr> fe_field = key, fe_messages = Some (duplicateMessage key),
       fe_message = None, fe_location = None \<rparr>"

definition isDuplicateError :: "js_error \<Rightarrow> bool" where
  "isDuplicateError error =
     (err_code error = Some 11000 \<and>
      (err_name error = ''BulkWriteError'' \<or> err_name error = ''MongoError'' \<or>
       err_name error = ''MongoServerError''))"

text \<open>
  \<^verbatim>\<open>checkDuplication(error)\<close>. \<open>Inr\<close> is the value it returns (which the caller throws);
  \<open>Inl\<close> is what it raises itself: \<^verbatim>\<open>Object.keys(error.keyPattern)\<close> on an undefined
  \<^verbatim>\<open>keyPattern\<close>.
\<close>

definition checkDuplication :: "js_error \<Rightarrow> js_error + js_error" where
  "checkDuplication error =
     (if \<not> isDuplicateError error then Inr error
      else
        (case err_keyPattern error of
           None \<Rightarrow> Inl (TypeError ''Cannot convert undefined or null to object'')
         | Some keyPattern \<Rightarrow>
             (let keys = map fst (entries keyPattern)
              in if length keys = 0 then Inr error
                 else Inr (APIError (Some ErrorMessages_VALIDATION) (Some BAD_REQUEST)
                            (Some (map duplicateEntry keys)) None))))"

text \<open>
  \<^verbatim>\<open>getFieldAsArray(field)\<close>: undefined for a falsy input; \<^verbatim>\<open>field.split\<close> exists on strings
  only, so a truthy array or object raises a \<^verbatim>\<open>TypeError\<close>.
\<close>

definition getFieldAsArray :: "qval option \<Rightarrow> js_error + string list option" where
  "getFieldAsArray field =
     (case field of
        None \<Rightarrow> Inr None
      | Some v \<Rightarrow>
          if \<not> truthy v then Inr None
          else
            (case v of
               QStr s \<Rightarrow> Inr (Some (map trim (split_on CHR '','' s)))
             | _ \<Rightarrow> Inl (TypeError ''field.split is not a function'')))"

text \<open>\<^verbatim>\<open>removeReservedVars(queries, dissolvers)\<close>.\<close>

definition removeReservedVars :: "'a obj \<Rightarrow> string list \<Rightarrow> 'a obj" where
  "removeReservedVars queries dissolvers =
     fold (\<lambda>kv acc. assign acc kv)
       (filter (\<lambda>kv. fst kv \<notin> set dissolvers \<and> \<not> startsWith (fst kv) ''$'') (entries queries))
       []"

text \<open>\<^verbatim>\<open>omitter(keys, obj)\<close> on an object and an array of keys.\<close>

definition omitter :: "string list \<Rightarrow> 'a obj \<Rightarrow> 'a obj" where
  "omitter keys ob =
     fold (\<lambda>kv acc. if fst kv \<notin> set keys then assign acc kv else acc) (entries ob) []"


section \<open>The request and the record type\<close>

text \<open>
  The parts of the request the controller and the error handler read: the parsed
  query string, the body (opaque), \<^verbatim>\<open>req.body?.populateMap\<close> (\<open>None\<close> when the body
  or the key is missing or falsy), \<^verbatim>\<open>req.params.id\<close>, \<^verbatim>\<open>req.originalUrl\<close> and
  \<^verbatim>\<open>req.method\<close>.
\<close>

record ('b, 'p) request =
  query :: "qval obj"
  body :: 'b
  populateMap :: "'p option"
  params_id :: string
  originalUrl :: string
  httpMethod :: string

text \<open>A stored record: its identifier and its fields, whose values the controller never inspects.\<close>

record 'v document =
  doc_id :: string
  doc_fields :: "'v obj"

text \<open>
  A filter condition under one key: a literal value copied from the request, the list
  under \<^verbatim>\<open>$or\<close> (one single-key object per searchable field, each
  \<^verbatim>\<open>{ $regex, $options }\<close>), or the \<^verbatim>\<open>{ $search }\<close> object under \<^verbatim>\<open>$text\<close>.
\<close>

datatype regex_cond = RegexCond qval string

datatype cond = Literal qval | OrList "(string \<times> regex_cond) list" | TextSearch qval

text \<open>
  What \<^verbatim>\<open>_buildFieldSelection\<close> returns: the object \<^verbatim>\<open>{ field: 0, ... }\<close>, a string of
  space-separated names, or \<^verbatim>\<open>null\<close>.
\<close>

datatype projection = ProjExclude "int obj" | ProjInclude string | ProjNull

text \<open>A value of an index specification (\<^verbatim>\<open>1\<close>, \<^verbatim>\<open>-1\<close>, \<^verbatim>\<open>"text"\<close>, ...).\<close>

datatype idxval = IdxNum int | IdxStr string

text \<open>
  The Mongoose model the controller is constructed with (\<^verbatim>\<open>this._model\<close>): the static
  \<^verbatim>\<open>protectedFields\<close> and \<^verbatim>\<open>searchableFields\<close>, the first component of each entry of
  \<^verbatim>\<open>schema.indexes()\<close>, and the collection. Mongoose and the document store are not code
  of the repository; what they do with a request is taken as data of the model: which
  documents a filter matches, which of two documents a sort order puts first, what
  populating a document yields, and the outcome of \<^verbatim>\<open>save\<close> and of
  \<^verbatim>\<open>findByIdAndUpdate\<close> (an error, or the document, \<open>None\<close> when no document has the
  identifier).
\<close>

record ('v, 'b, 'p) model =
  protectedFields :: "string list"
  searchableFields :: "string list"
  schemaIndexes :: "idxval obj list"
  documents :: "'v document list"
  matches :: "cond obj \<Rightarrow> 'v document \<Rightarrow> bool"
  precedes :: "int obj \<Rightarrow> 'v document \<Rightarrow> 'v document \<Rightarrow> bool"
  populated :: "'p \<Rightarrow> 'v document \<Rightarrow> 'v document"
  populatedPaths :: "string list option \<Rightarrow> 'v document \<Rightarrow> 'v document"
  save :: "'b \<Rightarrow> js_error + 'v document"
  findByIdAndUpdate :: "string \<Rightarrow> 'b \<Rightarrow> js_error + 'v document option"

text \<open>The success envelope passed to \<^verbatim>\<open>res.status(...).json(...)\<close>.\<close>

record 'd response =
  http_status :: int
  data :: 'd
  code :: int
  message :: string
  count :: "nat option"
  total :: "nat option"

section \<open>helpers/error-handler.js\<close>

text \<open>
  The error envelope. A key is \<open>None\<close> when it is absent from the object or holds
  \<^verbatim>\<open>undefined\<close> (which \<^verbatim>\<open>res.json\<close> leaves out).
\<close>

record error_response =
  r_status :: int
  r_success :: bool
  r_code :: int
  r_message :: string
  r_errors :: "field_error list option"
  r_stack :: "string option"
  r_type :: "string option"
  r_path :: "string option"
  r_method :: "string option"

text \<open>
  The base response both revisions of \<^verbatim>\<open>errorHandler\<close> start from. \<^verbatim>\<open>err.status || 500\<close>
  and \<^verbatim>\<open>err.message || "Internal Server Error"\<close> take the default for an undefined
  property, the number 0 and the empty string; \<^verbatim>\<open>...(err.errors && { errors })\<close> copies
  every list, the empty one as well (an array is truthy).
\<close>

definition baseResponse :: "js_error \<Rightarrow> error_response" where
  "baseResponse err =
     \<lparr> r_status = 0,
       r_success = False,
       r_code = (case err_status err of
                   None \<Rightarrow> INTERNAL_SERVER_ERROR
                 | Some st \<Rightarrow> if st \<noteq> 0 then st else INTERNAL_SERVER_ERROR),
       r_message = (case err_message err of
                      None \<Rightarrow> ErrorMessages_INTERNAL_SERVER_ERROR
                    | Some t \<Rightarrow> if t \<noteq> [] then t else ErrorMessages_INTERNAL_SERVER_ERROR),
       r_errors = err_errors err,
       r_stack = None,
       r_type = None,
       r_path = None,
       r_method = None \<rparr>"

text \<open>
  \<^verbatim>\<open>errorHandler(err, req, res)\<close> of \<^verbatim>\<open>src/helpers/error-handler.js\<close>; \<open>env\<close> is
  \<^verbatim>\<open>envVars.env\<close>. The result is the object given to \<^verbatim>\<open>res.json\<close>, with the status
  given to \<^verbatim>\<open>res.status\<close> in \<open>r_status\<close>.
\<close>

definition errorHandler ::
  "string option \<Rightarrow> js_error \<Rightarrow> ('b, 'p) request \<Rightarrow> error_response" where
  "errorHandler env err req =
     (let response = baseResponse err;
          response =
            (if env = Some ''development''
             then response\<lparr> r_stack := err_stack err, r_type := Some (err_constructor err) \<rparr>
             else response);
          response =
            (if env = Some ''production'' then
               (let response =
                      (if r_code response \<ge> 500
                       then response\<lparr> r_message := ''Internal Server Error'' \<rparr>
                       else response);
                    response = response\<lparr> r_stack := None \<rparr>
                in if r_code response \<ge> 500 then response\<lparr> r_errors := None \<rparr> else response)
             else response)
      in response\<lparr> r_status := r_code response \<rparr>)"

text \<open>
  The later revision of the same function (the copy that reads
  \<^verbatim>\<open>ErrorMessages.INTERNAL_SERVER_ERROR\<close> from \<^verbatim>\<open>utils/constants/constants.js\<close>): in
  development it also sets \<^verbatim>\<open>path\<close> and \<^verbatim>\<open>method\<close>.
\<close>

definition errorHandler_revised ::
  "string option \<Rightarrow> js_error \<Rightarrow> ('b, 'p) request \<Rightarrow> error_response" where
  "errorHandler_revised env err req =
     (let response = baseResponse err;
          response =
            (if env = Some ''development''
             then response\<lparr> r_stack := err_stack err, r_type := Some (err_constructor err),
                             r_path := Some (originalUrl req), r_method := Some (httpMethod req) \<rparr>
             else response);
          response =
            (if env = Some ''production'' then
               (let response =
                      (if r_code response \<ge> 500
                       then response\<lparr> r_message := ErrorMessages_INTERNAL_SERVER_ERROR,
                                       r_errors := None \<rparr>
                       else response)
                in response\<lparr> r_stack := None \<rparr>)
             else response)
      in response\<lparr> r_status := r_code response \<rparr>)"


section \<open>The query and the document store\<close>

text \<open>
  The Mongoose query that \<^verbatim>\<open>list\<close> builds before \<^verbatim>\<open>exec\<close>: the filter given to
  \<^verbatim>\<open>find\<close>, the arguments of \<^verbatim>\<open>select\<close>, \<^verbatim>\<open>sort\<close> and \<^verbatim>\<open>populate\<close>, and the
  arguments of \<^verbatim>\<open>skip\<close> and \<^verbatim>\<open>limit\<close> when they are called.
\<close>

record 'p query_plan =
  plan_conditions :: "cond obj"
  plan_selection :: projection
  plan_sort :: "int obj"
  plan_populate :: "'p option"
  plan_paging :: "(jsnum \<times> jsarg) option"

text \<open>
  The store's side of the query, by the documented behaviour of Mongoose and MongoDB
  (the collaborator, not code of the repository). A store error stands for whatever the
  driver raises.
\<close>

definition storeError :: "string \<Rightarrow> string \<Rightarrow> js_error" where
  "storeError nm msg =
     \<lparr> err_constructor = nm,
       err_name = nm,
       err_code = None,
       err_keyPattern = None,
       err_message = Some msg,
       err_status = None,
       err_errors = None,
       err_stack = Some capturedStack \<rparr>"

text \<open>\<^verbatim>\<open>countDocuments(filter)\<close>: the number of documents the filter matches.\<close>

definition countDocuments :: "('v, 'b, 'p) model \<Rightarrow> cond obj \<Rightarrow> nat" where
  "countDocuments m conditions = length (filter (matches m conditions) (documents m))"

text \<open>Sorting: a stable insertion sort by the store's comparison; no sort key keeps the order.\<close>

fun insertBy :: "('a \<Rightarrow> 'a \<Rightarrow> bool) \<Rightarrow> 'a \<Rightarrow> 'a list \<Rightarrow> 'a list" where
  "insertBy le x [] = [x]"
| "insertBy le x (y # ys) = (if le x y then x # y # ys else y # insertBy le x ys)"

definition sortDocuments ::
  "('v, 'b, 'p) model \<Rightarrow> int obj \<Rightarrow> 'v document list \<Rightarrow> 'v document list" where
  "sortDocuments m sortOrder ds =
     (if sortOrder = [] then ds else foldr (insertBy (precedes m sortOrder)) ds [])"

text \<open>A finite number without fraction.\<close>

definition wholeNumber :: "jsnum \<Rightarrow> int option" where
  "wholeNumber n =
     (case n of
        Num r \<Rightarrow> if of_int \<lfloor>r\<rfloor> = r then Some \<lfloor>r\<rfloor> else None
      | _ \<Rightarrow> None)"

text \<open>\<^verbatim>\<open>skip(n)\<close> drops the first \<open>n\<close> results; the store rejects anything but a whole number \<open>\<ge> 0\<close>.\<close>

definition skipDocuments :: "jsnum \<Rightarrow> 'a list \<Rightarrow> js_error + 'a list" where
  "skipDocuments n ds =
     (case wholeNumber n of
        None \<Rightarrow> Inl (storeError ''MongoServerError'' ''skip is not a non-negative integer'')
      | Some k \<Rightarrow>
          if k < 0 then Inl (storeError ''MongoServerError'' ''skip is not a non-negative integer'')
          else Inr (drop (nat k) ds))"

text \<open>
  \<^verbatim>\<open>limit(v)\<close>. When it is called, Mongoose casts a string with \<^verbatim>\<open>Number\<close> and
  raises a \<^verbatim>\<open>CastError\<close> if that is NaN; an array or object is passed on as it is
  (\<open>None\<close>), and the store rejects it.
\<close>

definition castLimit :: "jsarg \<Rightarrow> js_error + jsnum option" where
  "castLimit v =
     (case v of
        NumArg n \<Rightarrow> Inr (Some n)
      | QueryArg (QStr s) \<Rightarrow>
          if stringToNumber s = NaN
          then Inl (storeError ''CastError'' ''Cast to Number failed for path limit'')
          else Inr (Some (stringToNumber s))
      | QueryArg (QArr xs) \<Rightarrow> Inr None
      | QueryArg (QObj kvs) \<Rightarrow> Inr None)"

text \<open>
  The store's limit: a whole number; 0 is no limit, and a negative limit returns that
  many documents.
\<close>

definition limitDocuments :: "jsnum option \<Rightarrow> 'a list \<Rightarrow> js_error + 'a list" where
  "limitDocuments v ds =
     (case v of
        None \<Rightarrow> Inl (storeError ''MongoServerError'' ''limit is not an integer'')
      | Some n \<Rightarrow>
          (case wholeNumber n of
             None \<Rightarrow> Inl (storeError ''MongoServerError'' ''limit is not an integer'')
           | Some k \<Rightarrow> if k = 0 then Inr ds else Inr (take (nat \<bar>k\<bar>) ds)))"

text \<open>\<^verbatim>\<open>query.skip(s).limit(v)\<close> on the sorted matches.\<close>

definition pageDocuments :: "jsnum \<Rightarrow> jsarg \<Rightarrow> 'a list \<Rightarrow> js_error + 'a list" where
  "pageDocuments skipArg limitArg ds =
     (case castLimit limitArg of
        Inl e \<Rightarrow> Inl e
      | Inr v \<Rightarrow>
          (case skipDocuments skipArg ds of
             Inl e \<Rightarrow> Inl e
           | Inr rest \<Rightarrow> limitDocuments v rest))"

text \<open>
  \<^verbatim>\<open>select\<close>. \<^verbatim>\<open>null\<close> selects nothing, so every field is returned; an object of
  zeros excludes its keys; a string is split at white space into names, a name with a
  leading \<^verbatim>\<open>-\<close> excludes, a plain name includes, and the two cannot be mixed. A name
  with a leading \<^verbatim>\<open>+\<close> only concerns schema paths hidden by default, which this record
  type does not have. The identifier is not one of the fields and is always returned.
\<close>

fun splitWhen :: "(char \<Rightarrow> bool) \<Rightarrow> string \<Rightarrow> string list" where
  "splitWhen P [] = [[]]"
| "splitWhen P (c # cs) =
     (if P c then [] # splitWhen P cs
      else (case splitWhen P cs of [] \<Rightarrow> [[c]] | w # ws \<Rightarrow> (c # w) # ws))"

definition pathNames :: "string \<Rightarrow> string list" where
  "pathNames s = filter (\<lambda>w. w \<noteq> []) (splitWhen isWhiteSpace s)"

definition includedNames :: "string list \<Rightarrow> string list" where
  "includedNames ws = filter (\<lambda>w. \<not> startsWith w ''-'' \<and> \<not> startsWith w ''+'') ws"

definition excludedNames :: "string list \<Rightarrow> string list" where
  "excludedNames ws = map tl (filter (\<lambda>w. startsWith w ''-'') ws)"

definition selectedField :: "projection \<Rightarrow> js_error + (string \<Rightarrow> bool)" where
  "selectedField proj =
     (case proj of
        ProjNull \<Rightarrow> Inr (\<lambda>k. True)
      | ProjExclude ob \<Rightarrow> Inr (\<lambda>k. k \<notin> set (map fst ob))
      | ProjInclude s \<Rightarrow>
          (let inc = includedNames (pathNames s); exc = excludedNames (pathNames s)
           in if inc \<noteq> [] \<and> exc \<noteq> []
              then Inl (storeError ''MongoServerError''
                         ''Cannot do exclusion on field in inclusion projection'')
              else if inc \<noteq> [] then Inr (\<lambda>k. k \<in> set inc)
              else if exc \<noteq> [] then Inr (\<lambda>k. k \<notin> set exc)
              else Inr (\<lambda>k. True)))"

definition selectFields :: "(string \<Rightarrow> bool) \<Rightarrow> 'v document \<Rightarrow> 'v document" where
  "selectFields keep d = d\<lparr> doc_fields := filter (\<lambda>kv. keep (fst kv)) (doc_fields d) \<rparr>"

text \<open>
  \<^verbatim>\<open>query.exec()\<close>: filter, sort, skip and limit, project, populate. A populated
  document replaces the document; none is added or dropped.
\<close>

definition exec ::
  "('v, 'b, 'p) model \<Rightarrow> 'p query_plan \<Rightarrow> js_error + 'v document list" where
  "exec m q =
     (let found = filter (matches m (plan_conditions q)) (documents m);
          sorted = sortDocuments m (plan_sort q) found
      in case (case plan_paging q of
                 None \<Rightarrow> Inr sorted
               | Some (skipArg, limitArg) \<Rightarrow> pageDocuments skipArg limitArg sorted) of
           Inl e \<Rightarrow> Inl e
         | Inr page \<Rightarrow>
             (case selectedField (plan_selection q) of
                Inl e \<Rightarrow> Inl e
              | Inr keep \<Rightarrow>
                  Inr (map (\<lambda>d. case plan_populate q of
                                   None \<Rightarrow> selectFields keep d
                                 | Some pm \<Rightarrow> populated m pm (selectFields keep d)) page)))"

section \<open>api/controllers/base.controller.js\<close>

text \<open>\<^verbatim>\<open>_buildSortOrder(req)\<close>: ascending fields first, then descending, into one object.\<close>

definition buildSortOrder :: "('b, 'p) request \<Rightarrow> js_error + int obj" where
  "buildSortOrder req =
     (case getFieldAsArray (map_of (query req) ''asc'') of
        Inl e \<Rightarrow> Inl e
      | Inr a \<Rightarrow>
          (case getFieldAsArray (map_of (query req) ''dsc'') of
             Inl e \<Rightarrow> Inl e
           | Inr d \<Rightarrow>
               (let asc = (case a of None \<Rightarrow> [] | Some fs \<Rightarrow> fs);
                    dsc = (case d of None \<Rightarrow> [] | Some fs \<Rightarrow> fs);
                    sortOrder = fold (\<lambda>field so. assign so (field, 1)) asc [];
                    sortOrder = fold (\<lambda>field so. assign so (field, - 1)) dsc sortOrder
                in Inr sortOrder)))"

text \<open>\<^verbatim>\<open>_buildFieldSelection(req)\<close>.\<close>

definition buildFieldSelection ::
  "('v, 'b, 'p) model \<Rightarrow> ('b, 'p) request \<Rightarrow> js_error + projection" where
  "buildFieldSelection m req =
     (case getFieldAsArray (map_of (query req) ''fields'') of
        Inl e \<Rightarrow> Inl e
      | Inr attributes \<Rightarrow>
          (let excludedFields = protectedFields m
           in case attributes of
                None \<Rightarrow>
                  Inr (ProjExclude (fold (\<lambda>field proj. assign proj (field, 0)) excludedFields []))
              | Some attrs \<Rightarrow>
                  (let attrs = arrayOmitter attrs excludedFields
                   in Inr (if length attrs \<noteq> 0 then ProjInclude (join '' '' attrs)
                           else ProjNull))))"

text \<open>
  \<^verbatim>\<open>schema.indexes().some((idx) => Object.values(idx[0]).includes("text"))\<close>.
\<close>

definition hasTextIndex :: "('v, 'b, 'p) model \<Rightarrow> bool" where
  "hasTextIndex m =
     list_ex (\<lambda>idx. IdxStr ''text'' \<in> set (map snd (entries idx))) (schemaIndexes m)"

text \<open>
  \<^verbatim>\<open>_buildQueryConditions(req, findQuery)\<close>; \<open>reservedVar\<close> is the constant of
  \<^verbatim>\<open>utils/constants/settings.js\<close>, a file that is not among the sources, so it is a
  parameter. The text-index branch returns before the loop over \<^verbatim>\<open>req.query\<close>.
\<close>

definition searchConditions :: "('v, 'b, 'p) model \<Rightarrow> qval \<Rightarrow> regex_cond obj" where
  "searchConditions m q =
     fold (\<lambda>field sc. assign sc (field, RegexCond q ''i'')) (searchableFields m) []"

text \<open>
  The loop \<^verbatim>\<open>Object.entries(req.query).forEach\<close> at the end of the function: every
  parameter whose key neither starts with \<^verbatim>\<open>$\<close> nor is reserved is assigned.
\<close>

definition standardParameters :: "string list \<Rightarrow> qval obj \<Rightarrow> cond obj \<Rightarrow> cond obj" where
  "standardParameters reservedVar q finalQuery =
     fold (\<lambda>kv acc.
             if \<not> startsWith (fst kv) ''$'' \<and> fst kv \<notin> set reservedVar
             then assign acc (fst kv, Literal (snd kv)) else acc)
       (entries q) finalQuery"

definition buildQueryConditions ::
  "string list \<Rightarrow> ('v, 'b, 'p) model \<Rightarrow> ('b, 'p) request \<Rightarrow> qval obj \<Rightarrow> cond obj" where
  "buildQueryConditions reservedVar m req findQuery =
     (let finalQuery = map (\<lambda>kv. (fst kv, Literal (snd kv))) (entries findQuery)
      in case map_of (query req) ''query'' of
           None \<Rightarrow> standardParameters reservedVar (query req) finalQuery
         | Some q \<Rightarrow>
             if \<not> truthy q then standardParameters reservedVar (query req) finalQuery
             else if hasTextIndex m
             then fold (\<lambda>kv acc. assign acc kv) finalQuery [(''$text'', TextSearch q)]
             else
               (let sc = searchConditions m q;
                    finalQuery =
                      (if length (entries sc) > 0
                       then assign finalQuery (''$or'', OrList (entries sc))
                       else finalQuery)
                in standardParameters reservedVar (query req) finalQuery))"

text \<open>
  The first lines of \<^verbatim>\<open>list\<close>: the destructured \<^verbatim>\<open>page\<close> and \<^verbatim>\<open>perPage\<close> with
  their defaults (\<^verbatim>\<open>const { page = 1, perPage = 10 } = req.query\<close>), and
  \<^verbatim>\<open>shouldPaginate = !!req.query.perPage\<close>.
\<close>

definition pageParam :: "qval obj \<Rightarrow> jsarg" where
  "pageParam q = (case map_of q ''page'' of None \<Rightarrow> NumArg (Num 1) | Some v \<Rightarrow> QueryArg v)"

definition perPageParam :: "qval obj \<Rightarrow> jsarg" where
  "perPageParam q = (case map_of q ''perPage'' of None \<Rightarrow> NumArg (Num 10) | Some v \<Rightarrow> QueryArg v)"

definition shouldPaginate :: "qval obj \<Rightarrow> bool" where
  "shouldPaginate q = (case map_of q ''perPage'' of None \<Rightarrow> False | Some v \<Rightarrow> truthy v)"

text \<open>
  The filter \<^verbatim>\<open>list\<close> gives to \<^verbatim>\<open>countDocuments\<close> and to \<^verbatim>\<open>find\<close>:
  \<^verbatim>\<open>_buildQueryConditions(req, removeReservedVars(req.query, reservedVar))\<close>.
\<close>

definition listConditions ::
  "string list \<Rightarrow> ('v, 'b, 'p) model \<Rightarrow> ('b, 'p) request \<Rightarrow> cond obj" where
  "listConditions reservedVar m req =
     buildQueryConditions reservedVar m req (removeReservedVars (query req) reservedVar)"


text \<open>
  The query that \<^verbatim>\<open>list\<close> has built when it calls \<^verbatim>\<open>exec\<close>; \<^verbatim>\<open>skip\<close> and
  \<^verbatim>\<open>limit\<close> are called under \<^verbatim>\<open>shouldPaginate\<close> only, with
  \<^verbatim>\<open>(page - 1) * perPage\<close> and \<^verbatim>\<open>perPage\<close>.
\<close>

definition buildQuery ::
  "string list \<Rightarrow> ('v, 'b, 'p) model \<Rightarrow> ('b, 'p) request \<Rightarrow> js_error + 'p query_plan" where
  "buildQuery reservedVar m req =
     (let page = pageParam (query req);
          perPage = perPageParam (query req)
      in case buildSortOrder req of
           Inl e \<Rightarrow> Inl e
         | Inr sortOrder \<Rightarrow>
             (case buildFieldSelection m req of
                Inl e \<Rightarrow> Inl e
              | Inr attributes \<Rightarrow>
                  (let queryConditions = listConditions reservedVar m req
                   in Inr \<lparr> plan_conditions = queryConditions,
                            plan_selection = attributes,
                            plan_sort = sortOrder,
                            plan_populate = populateMap req,
                            plan_paging =
                              (if shouldPaginate (query req)
                               then Some (js_mul (js_sub (argToNumber page) (Num 1))
                                            (argToNumber perPage), perPage)
                               else None) \<rparr>)))"

text \<open>
  \<^verbatim>\<open>list(req, res, next)\<close>. \<open>Inl\<close> is the error passed to \<^verbatim>\<open>next\<close>, \<open>Inr\<close> the
  envelope sent with status 200.
\<close>

definition list ::
  "string list \<Rightarrow> ('v, 'b, 'p) model \<Rightarrow> ('b, 'p) request
     \<Rightarrow> js_error + 'v document list response" where
  "list reservedVar m req =
     (case buildQuery reservedVar m req of
        Inl e \<Rightarrow> Inl e
      | Inr q \<Rightarrow>
          (let totalCount = countDocuments m (plan_conditions q)
           in case exec m q of
                Inl e \<Rightarrow> Inl e
              | Inr results \<Rightarrow>
                  Inr \<lparr> http_status = OK,
                        data = results,
                        code = OK,
                        message = (if length results > 0 then SuccessMessages_RETRIEVED
                                   else ErrorMessages_NOT_FOUND),
                        count = Some (length results),
                        total = Some totalCount \<rparr>))"

text \<open>
  The public transform (\<^verbatim>\<open>transform()\<close> of the model): the fields without the protected
  ones.
\<close>

definition transform :: "('v, 'b, 'p) model \<Rightarrow> 'v document \<Rightarrow> 'v document" where
  "transform m d = d\<lparr> doc_fields := omitter (protectedFields m) (doc_fields d) \<rparr>"

definition findById :: "('v, 'b, 'p) model \<Rightarrow> string \<Rightarrow> 'v document option" where
  "findById m i = find (\<lambda>d. doc_id d = i) (documents m)"

definition notFound :: js_error where
  "notFound = APIError (Some ErrorMessages_NOT_FOUND) (Some NOT_FOUND) None None"

text \<open>\<^verbatim>\<open>throw await checkDuplication(err)\<close>: either way an error is thrown.\<close>

definition thrownAfterCheck :: "js_error \<Rightarrow> js_error" where
  "thrownAfterCheck err = (case checkDuplication err of Inl e \<Rightarrow> e | Inr e \<Rightarrow> e)"

text \<open>\<^verbatim>\<open>add(req, res, next)\<close>.\<close>

definition add ::
  "('v, 'b, 'p) model \<Rightarrow> ('b, 'p) request \<Rightarrow> js_error + 'v document response" where
  "add m req =
     (case save m (body req) of
        Inl err \<Rightarrow> Inl (thrownAfterCheck err)
      | Inr savedObject \<Rightarrow>
          Inr \<lparr> http_status = CREATED,
                data = transform m savedObject,
                code = OK,
                message = SuccessMessages_CREATED,
                count = None,
                total = None \<rparr>)"





section \<open>An instance: the company record type\<close>

text \<open>
  The static fields and the indexes of \<^verbatim>\<open>api/models/company.model.js\<close>, with two stored
  companies, for the worked examples. Its store matches a literal string condition by
  equality with the stored field, keeps the stored order, populates nothing, and
  rejects every \<^verbatim>\<open>save\<close> and every update with a duplicate-key error on
  \<^verbatim>\<open>company_name\<close>.
\<close>

definition acme :: "string document" where
  "acme =
     \<lparr> doc_id = ''c1'',
       doc_fields = [(''name'', ''Acme''), (''slug'', ''acme''), (''status'', ''active''),
                     (''created_at'', ''2025-01-01''), (''updated_at'', ''2025-01-02''),
                     (''__v'', ''0'')] \<rparr>"

definition beta :: "string document" where
  "beta =
     \<lparr> doc_id = ''c2'',
       doc_fields = [(''name'', ''Beta''), (''slug'', ''beta''), (''status'', ''active''),
                     (''created_at'', ''2025-02-01''), (''updated_at'', ''2025-02-02''),
                     (''__v'', ''0'')] \<rparr>"

definition literalMatch :: "cond obj \<Rightarrow> string document \<Rightarrow> bool" where
  "literalMatch conditions d =
     list_all (\<lambda>kc. case snd kc of
                       Literal (QStr s) \<Rightarrow> map_of (doc_fields d) (fst kc) = Some s
                     | _ \<Rightarrow> True) conditions"

definition duplicateName :: js_error where
  "duplicateName =
     \<lparr> err_constructor = ''MongoServerError'',
       err_name = ''MongoServerError'',
       err_code = Some 11000,
       err_keyPattern = Some [(''company_name'', 1)],
       err_message = Some ''E11000 duplicate key error'',
       err_status = None,
       err_errors = None,
       err_stack = Some capturedStack \<rparr>"

definition companyModel :: "(string, unit, unit) model" where
  "companyModel =
     \<lparr> protectedFields = [''__v'', ''created_at'', ''updated_at''],
       searchableFields = [''name'', ''slug''],
       schemaIndexes =
         [[(''name'', IdxNum 1), (''status'', IdxNum 1)],
          [(''status'', IdxNum 1), (''created_at'', IdxNum (- 1))],
          [(''slug'', IdxNum 1)]],
       documents = [acme, beta],
       matches = literalMatch,
       precedes = (\<lambda>so a b. True),
       populated = (\<lambda>pm d. d),
       populatedPaths = (\<lambda>ps d. d),
       save = (\<lambda>b. Inl duplicateName),
       findByIdAndUpdate = (\<lambda>i b. Inl duplicateName) \<rparr>"

text \<open>Two errors for the examples: a server-side failure with details, and an error whose list is empty.\<close>

definition internalFailure :: js_error where
  "internalFailure =
     APIError (Some ''connection refused'') (Some 503)
       (Some [\<lparr> fe_field = ''db'', fe_messages = None, fe_message = Some ''down'',
                fe_location = None \<rparr>]) None"

definition emptyListError :: js_error where
  "emptyListError = APIError (Some ''VALIDATION_ERROR'') (Some 400) (Some []) None"


definition unsearchableModel :: "(string, unit, unit) model" where
  "unsearchableModel = companyModel\<lparr> searchableFields := [] \<rparr>"

text \<open>The reserved names the specification lists, for the examples.\<close>

definition reservedNames :: "string list" where
  "reservedNames = [''page'', ''perPage'', ''asc'', ''dsc'', ''fields'', ''query'']"

text \<open>A \<^verbatim>\<open>GET /companies\<close> request with the given query, and a request on one identifier.\<close>

definition listRequest :: "qval obj \<Rightarrow> (unit, unit) request" where
  "listRequest q =
     \<lparr> query = q, body = (), populateMap = None, params_id = [],
       originalUrl = ''/companies'', httpMethod = ''GET'' \<rparr>"

definition idRequest :: "string \<Rightarrow> string \<Rightarrow> (unit, unit) request" where
  "idRequest verb i =
     \<lparr> query = [], body = (), populateMap = None, params_id = i,
       originalUrl = ''/companies/'' @ i, httpMethod = verb \<rparr>"


text \<open>The second page of a listing with one company per page.\<close>

definition secondPage :: "(unit, unit) request" where
  "secondPage = listRequest [(''perPage'', QStr ''1''), (''page'', QStr ''2'')]"

section \<open>The specification's wording\<close>




section \<open>Facts about the helpers\<close>

lemmas js_string_defs = trim_def isWhiteSpace_def startsWith_def

lemmas status_defs = OK_def CREATED_def BAD_REQUEST_def NOT_FOUND_def INTERNAL_SERVER_ERROR_def

lemma map_of_fold_assign_const:
  "map_of (fold (\<lambda>field proj. assign proj (field, c)) fs acc) k =
     (if k \<in> set fs then Some c else map_of acc k)"
  by (induction fs arbitrary: acc) (auto simp: assign_def update_conv')

lemma getFieldAsArray_empty: "getFieldAsArray (Some (QStr [])) = Inr None"
  by (simp add: getFieldAsArray_def)

lemma getFieldAsArray_absent: "getFieldAsArray None = Inr None"
  by (simp add: getFieldAsArray_def)

section \<open>Field selection\<close>

text \<open>
  Claim C10. A \<^verbatim>\<open>fields\<close> parameter that is present but the empty string selects
  fields exactly as an absent one: whatever else the query holds, setting \<^verbatim>\<open>fields\<close>
  to the empty string and removing it give the same projection, namely the exclusion
  object whose keys are the protected fields, each with 0. The reason is that
  \<^verbatim>\<open>getFieldAsArray\<close> returns no list for the empty string, so the branch that
  could return \<^verbatim>\<open>null\<close> is not taken.
\<close>

theorem empty_fields_as_absent:
  "buildFieldSelection m (req\<lparr> query := AList.update ''fields'' (QStr []) q \<rparr>)
     = buildFieldSelection m (req\<lparr> query := AList.delete ''fields'' q \<rparr>)
   \<and> buildFieldSelection m (req\<lparr> query := AList.update ''fields'' (QStr []) q \<rparr>)
     = Inr (ProjExclude (fold (\<lambda>field proj. assign proj (field, 0)) (protectedFields m) []))
   \<and> map_of (fold (\<lambda>field proj. assign proj (field, 0)) (protectedFields m) []) k
     = (if k \<in> set (protectedFields m) then Some 0 else None)
   \<and> getFieldAsArray (Some (QStr [])) = Inr None"
  by (simp add: buildFieldSelection_def update_conv' delete_conv' getFieldAsArray_empty
      getFieldAsArray_absent map_of_fold_assign_const)



text \<open>
  Claim C6 fails on the code. When nothing is left of the requested list, the
  function returns \<^verbatim>\<open>null\<close>, and a query with \<^verbatim>\<open>select(null)\<close> has no projection:
  for the company record type, \<^verbatim>\<open>fields=created_at\<close> returns every field of every
  company, the protected ones included.
\<close>

theorem only_protected_requested_selects_all:
  "buildFieldSelection companyModel (listRequest [(''fields'', QStr ''created_at'')])
     = Inr ProjNull
   \<and> list reservedNames companyModel (listRequest [(''fields'', QStr ''created_at'')])
     = Inr \<lparr> http_status = 200, data = [acme, beta],
             code = 200, message = ''Resource retrieved successfully'',
             count = Some 2, total = Some 2 \<rparr>"
  by code_simp

section \<open>Duplicate keys\<close>






lemma isDuplicateError_APIError: "\<not> isDuplicateError (APIError a b c d)"
  by (simp add: isDuplicateError_def APIError_def)

lemma thrownAfterCheck_notFound: "thrownAfterCheck notFound = notFound"
  by (simp add: thrownAfterCheck_def checkDuplication_def notFound_def isDuplicateError_APIError)





section \<open>Deleting a record\<close>



lemma findById_Some: "findById m i = Some d \<Longrightarrow> d \<in> set (documents m) \<and> doc_id d = i"
  by (auto simp: findById_def find_Some_iff)






section \<open>The error handler\<close>

lemma baseResponse_message_nonempty: "r_message (baseResponse err) \<noteq> []"
  by (simp add: baseResponse_def ErrorMessages_INTERNAL_SERVER_ERROR_def split: option.splits)

lemma errorHandler_revised_eq:
  "errorHandler_revised env err req =
     (errorHandler env err req)
       \<lparr> r_path := (if env = Some ''development'' then Some (originalUrl req) else None),
         r_method := (if env = Some ''development'' then Some (httpMethod req) else None) \<rparr>"
  by (simp add: errorHandler_def errorHandler_revised_def baseResponse_def Let_def
      ErrorMessages_INTERNAL_SERVER_ERROR_def)

text \<open>
  Claim C4, as amended. In production the handler of \<^verbatim>\<open>src/helpers/error-handler.js\<close>
  emits none of \<^verbatim>\<open>stack\<close>, \<^verbatim>\<open>type\<close>, \<^verbatim>\<open>path\<close>, \<^verbatim>\<open>method\<close> under any status,
  and when the code is 500 or more it replaces the message by the generic one and
  drops the field-error list (below 500 both are kept); the revised handler gives the
  same response in production. In development both attach \<^verbatim>\<open>stack\<close> and the error's
  type for every status; the request path and method are attached by the revised
  handler only.
\<close>

theorem redaction_by_environment:
  "r_stack (errorHandler (Some ''production'') err req) = None
   \<and> r_type (errorHandler (Some ''production'') err req) = None
   \<and> r_path (errorHandler (Some ''production'') err req) = None
   \<and> r_method (errorHandler (Some ''production'') err req) = None
   \<and> (r_code (errorHandler (Some ''production'') err req) \<ge> 500 \<longrightarrow>
        r_message (errorHandler (Some ''production'') err req) = ''Internal Server Error''
        \<and> r_errors (errorHandler (Some ''production'') err req) = None)
   \<and> (r_code (errorHandler (Some ''production'') err req) < 500 \<longrightarrow>
        r_message (errorHandler (Some ''production'') err req) = r_message (baseResponse err)
        \<and> r_errors (errorHandler (Some ''production'') err req) = err_errors err)
   \<and> errorHandler_revised (Some ''production'') err req = errorHandler (Some ''production'') err req
   \<and> r_stack (errorHandler (Some ''development'') err req) = err_stack err
   \<and> r_type (errorHandler (Some ''development'') err req) = Some (err_constructor err)
   \<and> r_path (errorHandler (Some ''development'') err req) = None
   \<and> r_method (errorHandler (Some ''development'') err req) = None
   \<and> r_stack (errorHandler_revised (Some ''development'') err req) = err_stack err
   \<and> r_type (errorHandler_revised (Some ''development'') err req) = Some (err_constructor err)
   \<and> r_path (errorHandler_revised (Some ''development'') err req) = Some (originalUrl req)
   \<and> r_method (errorHandler_revised (Some ''development'') err req) = Some (httpMethod req)"
  by (simp add: errorHandler_revised_eq) (simp add: errorHandler_def baseResponse_def Let_def)

text \<open>
  A 503 with details is redacted in production, a 404 keeps its message, and the
  revised handler reports the method in development.
\<close>

theorem redaction_by_environment_witness:
  "r_code (errorHandler (Some ''production'') internalFailure (idRequest ''GET'' ''c1'')) = 503
   \<and> r_message (errorHandler (Some ''production'') internalFailure (idRequest ''GET'' ''c1''))
       = ''Internal Server Error''
   \<and> r_errors (errorHandler (Some ''production'') internalFailure (idRequest ''GET'' ''c1'')) = None
   \<and> r_stack (errorHandler (Some ''production'') internalFailure (idRequest ''GET'' ''c1'')) = None
   \<and> r_code (errorHandler (Some ''production'') notFound (idRequest ''GET'' ''c9'')) = 404
   \<and> r_message (errorHandler (Some ''production'') notFound (idRequest ''GET'' ''c9''))
       = ''Resource not found''
   \<and> r_method (errorHandler_revised (Some ''development'') notFound (idRequest ''GET'' ''c9''))
       = Some ''GET''"
proof -
  have a: "r_code (errorHandler (Some ''production'') internalFailure (idRequest ''GET'' ''c1'')) = 503"
    by (simp add: errorHandler_def baseResponse_def internalFailure_def APIError_def Let_def)
  have b: "r_code (errorHandler (Some ''production'') notFound (idRequest ''GET'' ''c9'')) = 404"
    by (simp add: errorHandler_def baseResponse_def notFound_def APIError_def Let_def NOT_FOUND_def)
  have c: "r_message (baseResponse notFound) = ''Resource not found''"
    by (simp add: baseResponse_def notFound_def APIError_def ErrorMessages_NOT_FOUND_def)
  have m: "httpMethod (idRequest ''GET'' ''c9'') = ''GET''" by (simp add: idRequest_def)
  from redaction_by_environment [of internalFailure "idRequest ''GET'' ''c1''"]
       redaction_by_environment [of notFound "idRequest ''GET'' ''c9''"] a b c m
  show ?thesis by simp
qed

text \<open>
  Claim C4 as stated fails on \<^verbatim>\<open>src/helpers/error-handler.js\<close>: in development the
  response to a not-found error carries the type, but neither \<^verbatim>\<open>path\<close> nor
  \<^verbatim>\<open>method\<close>.
\<close>

theorem development_omits_path_and_method:
  "r_path (errorHandler (Some ''development'') notFound (idRequest ''GET'' ''c9'')) = None
   \<and> r_method (errorHandler (Some ''development'') notFound (idRequest ''GET'' ''c9'')) = None
   \<and> r_type (errorHandler (Some ''development'') notFound (idRequest ''GET'' ''c9'')) = Some ''APIError''"
  by (simp add: errorHandler_def baseResponse_def Let_def notFound_def APIError_def)

text \<open>
  Claim C7, as amended. Both handlers produce one envelope with \<^verbatim>\<open>success\<close>
  false, the status equal to the code, the code equal to the error's status (500 when
  the status is missing or 0) and a non-empty message. The \<^verbatim>\<open>errors\<close> key is present
  only if the error carries a list, and then holds that list, the empty list
  included; in production with a code of 500 or more it is absent.
\<close>

theorem error_envelope:
  "r_success (errorHandler env err req) = False
   \<and> r_status (errorHandler env err req) = r_code (errorHandler env err req)
   \<and> (err_status err = Some s \<and> s \<noteq> 0 \<longrightarrow> r_code (errorHandler env err req) = s)
   \<and> (err_status err = None \<or> err_status err = Some 0 \<longrightarrow> r_code (errorHandler env err req) = 500)
   \<and> r_message (errorHandler env err req) \<noteq> []
   \<and> (r_errors (errorHandler env err req) = Some es \<longrightarrow> err_errors err = Some es)
   \<and> (env = Some ''production'' \<and> r_code (errorHandler env err req) \<ge> 500 \<longrightarrow>
        r_errors (errorHandler env err req) = None)
   \<and> (\<not> (env = Some ''production'' \<and> r_code (errorHandler env err req) \<ge> 500) \<longrightarrow>
        r_errors (errorHandler env err req) = err_errors err)
   \<and> r_success (errorHandler_revised env err req) = r_success (errorHandler env err req)
   \<and> r_status (errorHandler_revised env err req) = r_status (errorHandler env err req)
   \<and> r_code (errorHandler_revised env err req) = r_code (errorHandler env err req)
   \<and> r_message (errorHandler_revised env err req) = r_message (errorHandler env err req)
   \<and> r_errors (errorHandler_revised env err req) = r_errors (errorHandler env err req)"
proof (intro conjI)
  show "r_success (errorHandler env err req) = False"
    by (simp add: errorHandler_def baseResponse_def Let_def)
  show "r_status (errorHandler env err req) = r_code (errorHandler env err req)"
    by (simp add: errorHandler_def baseResponse_def Let_def)
  show "err_status err = Some s \<and> s \<noteq> 0 \<longrightarrow> r_code (errorHandler env err req) = s"
    by (simp add: errorHandler_def baseResponse_def Let_def)
  show "err_status err = None \<or> err_status err = Some 0 \<longrightarrow> r_code (errorHandler env err req) = 500"
    by (auto simp: errorHandler_def baseResponse_def Let_def INTERNAL_SERVER_ERROR_def)
  show "r_message (errorHandler env err req) \<noteq> []"
    using baseResponse_message_nonempty [of err] by (simp add: errorHandler_def Let_def)
  show "r_errors (errorHandler env err req) = Some es \<longrightarrow> err_errors err = Some es"
    by (simp add: errorHandler_def baseResponse_def Let_def)
  show "env = Some ''production'' \<and> r_code (errorHandler env err req) \<ge> 500 \<longrightarrow>
        r_errors (errorHandler env err req) = None"
    by (simp add: errorHandler_def baseResponse_def Let_def)
  show "\<not> (env = Some ''production'' \<and> r_code (errorHandler env err req) \<ge> 500) \<longrightarrow>
        r_errors (errorHandler env err req) = err_errors err"
    by (simp add: errorHandler_def baseResponse_def Let_def)
qed (simp_all add: errorHandler_revised_eq)

text \<open>
  A 404 without list, a \<^verbatim>\<open>TypeError\<close> without status (code 500), and a 503 with a
  list: dropped in production, kept in development.
\<close>

theorem error_envelope_witness:
  "err_status notFound = Some 404
   \<and> r_code (errorHandler (Some ''production'') notFound (idRequest ''GET'' ''c9'')) = 404
   \<and> r_status (errorHandler (Some ''production'') notFound (idRequest ''GET'' ''c9'')) = 404
   \<and> r_errors (errorHandler (Some ''production'') notFound (idRequest ''GET'' ''c9'')) = None
   \<and> err_status (TypeError ''x'') = None
   \<and> r_code (errorHandler (Some ''production'') (TypeError ''x'') (idRequest ''GET'' ''c9'')) = 500
   \<and> r_errors (errorHandler (Some ''production'') (TypeError ''x'') (idRequest ''GET'' ''c9'')) = None
   \<and> r_errors (errorHandler (Some ''production'') internalFailure (idRequest ''GET'' ''c1'')) = None
   \<and> r_errors (errorHandler (Some ''development'') internalFailure (idRequest ''GET'' ''c1''))
       = err_errors internalFailure
   \<and> err_errors internalFailure \<noteq> None"
proof -
  have a: "err_status notFound = Some 404" "err_errors notFound = None"
    by (simp_all add: notFound_def APIError_def NOT_FOUND_def)
  have b: "err_status (TypeError ''x'') = None" by (simp add: TypeError_def)
  have c: "err_status internalFailure = Some 503" "err_errors internalFailure \<noteq> None"
    by (simp_all add: internalFailure_def APIError_def)
  from error_envelope [of "Some ''production''" notFound "idRequest ''GET'' ''c9''" 404 "[]"]
       error_envelope [of "Some ''production''" "TypeError ''x''" "idRequest ''GET'' ''c9''" 0 "[]"]
       error_envelope [of "Some ''production''" internalFailure "idRequest ''GET'' ''c1''" 503 "[]"]
       error_envelope [of "Some ''development''" internalFailure "idRequest ''GET'' ''c1''" 503 "[]"]
       a b c
  show ?thesis by simp
qed

text \<open>
  Claim C7 as stated fails: an error that carries the empty list yields an
  \<^verbatim>\<open>errors\<close> key (holding the empty list), in development and in production.
\<close>

theorem empty_list_keeps_errors_key:
  "err_errors emptyListError = Some []
   \<and> r_errors (errorHandler (Some ''development'') emptyListError (idRequest ''POST'' [])) = Some []
   \<and> r_errors (errorHandler (Some ''production'') emptyListError (idRequest ''POST'' [])) = Some []
   \<and> r_errors (errorHandler_revised (Some ''production'') emptyListError (idRequest ''POST'' [])) = Some []"
  by (simp add: errorHandler_revised_eq) (simp add: errorHandler_def baseResponse_def Let_def emptyListError_def APIError_def)



section \<open>The filter\<close>




















lemma filter_update_skipped:
  "\<not> P k0 \<Longrightarrow> filter (\<lambda>kv. P (fst kv)) (AList.update k0 v al) = filter (\<lambda>kv. P (fst kv)) al"
  by (induction al) auto


lemma fold_guarded:
  "fold (\<lambda>kv acc. if P (fst kv) then g kv acc else acc) es acc
     = fold g (filter (\<lambda>kv. P (fst kv)) es) acc"
  by (induction es arbitrary: acc) auto

lemma entries_update: "entries (AList.update k v ob) = AList.update k v (entries ob)"
  by (simp add: entries_def clearjunk_update)


lemma removeReservedVars_update_reserved:
  "k0 \<in> set rv \<Longrightarrow> removeReservedVars (AList.update k0 v q) rv = removeReservedVars q rv"
  unfolding removeReservedVars_def entries_update
  using filter_update_skipped [of "\<lambda>k. k \<notin> set rv \<and> \<not> startsWith k ''$''" k0 v "entries q"]
  by simp


lemma standardParameters_filter:
  "standardParameters rv q fq =
     fold (\<lambda>kv acc. assign acc (fst kv, Literal (snd kv)))
       (filter (\<lambda>kv. \<not> startsWith (fst kv) ''$'' \<and> fst kv \<notin> set rv) (entries q)) fq"
  unfolding standardParameters_def
  by (rule fold_guarded [of "\<lambda>k. \<not> startsWith k ''$'' \<and> k \<notin> set rv"])

lemma standardParameters_update_reserved:
  "k0 \<in> set rv \<Longrightarrow> standardParameters rv (AList.update k0 v q) fq = standardParameters rv q fq"
  unfolding standardParameters_filter entries_update
  using filter_update_skipped [of "\<lambda>k. \<not> startsWith k ''$'' \<and> k \<notin> set rv" k0 v "entries q"]
  by simp


lemma listConditions_update_reserved:
  assumes "k0 \<in> set rv" and "k0 \<noteq> ''query''"
  shows "listConditions rv m (req\<lparr> query := AList.update k0 v (query req) \<rparr>) = listConditions rv m req"
proof -
  have "standardParameters rv (AList.update k0 v (query req)) = standardParameters rv (query req)"
    using assms(1) by (intro ext) (rule standardParameters_update_reserved)
  then show ?thesis
    using assms
    by (simp add: listConditions_def buildQueryConditions_def removeReservedVars_update_reserved
        update_conv' Let_def split: option.splits)
qed


lemma listConditions_ignores_paging:
  assumes "''page'' \<in> set rv" and "''perPage'' \<in> set rv"
  shows "listConditions rv m
           (req\<lparr> query := AList.update ''page'' pg (AList.update ''perPage'' pp (query req)) \<rparr>)
         = listConditions rv m req"
proof -
  have "listConditions rv m
           ((req\<lparr> query := AList.update ''perPage'' pp (query req) \<rparr>)
              \<lparr> query := AList.update ''page'' pg
                          (query (req\<lparr> query := AList.update ''perPage'' pp (query req) \<rparr>)) \<rparr>)
        = listConditions rv m (req\<lparr> query := AList.update ''perPage'' pp (query req) \<rparr>)"
    using assms(1) by (intro listConditions_update_reserved) simp_all
  also have "\<dots> = listConditions rv m req"
    using assms(2) by (intro listConditions_update_reserved) simp_all
  finally show ?thesis by simp
qed



section \<open>Pagination\<close>

lemma length_insertBy: "length (insertBy le x ys) = Suc (length ys)"
  by (induction ys) auto

lemma length_foldr_insertBy: "length (foldr (insertBy le) ds []) = length ds"
  by (induction ds) (auto simp: length_insertBy)

lemma length_sortDocuments: "length (sortDocuments m so ds) = length ds"
  by (simp add: sortDocuments_def length_foldr_insertBy)

lemma wholeNumber_of_nat: "wholeNumber (Num (of_nat n)) = Some (int n)"
  by (simp add: wholeNumber_def)

lemma skipDocuments_nat: "skipDocuments (Num (of_nat n)) ds = Inr (drop n ds)"
  by (simp add: skipDocuments_def wholeNumber_of_nat)

lemma limitDocuments_nat:
  "1 \<le> n \<Longrightarrow> limitDocuments (Some (Num (of_nat n))) ds = Inr (take n ds)"
  by (simp add: limitDocuments_def wholeNumber_of_nat)

lemma skipDocuments_Inr: "skipDocuments sk ds = Inr rest \<Longrightarrow> \<exists>k. rest = drop k ds"
  by (auto simp: skipDocuments_def split: option.splits if_splits)

lemma castLimit_number:
  "toNumber v = Num x \<Longrightarrow> castLimit (QueryArg v) = Inr (case v of QStr s \<Rightarrow> Some (Num x) | _ \<Rightarrow> None)"
  by (cases v) (auto simp: castLimit_def toNumber_def)

lemma pageDocuments_limit:
  assumes ok: "pageDocuments sk (QueryArg v) ds = Inr pg"
    and n: "toNumber v = Num (of_nat n)" and pos: "1 \<le> n"
  shows "\<exists>k. pg = take n (drop k ds)"
proof (cases v)
  case (QStr s)
  with n have c: "castLimit (QueryArg v) = Inr (Some (Num (of_nat n)))"
    by (simp add: castLimit_number)
  from ok c obtain rest where r: "skipDocuments sk ds = Inr rest"
    and l: "limitDocuments (Some (Num (of_nat n))) rest = Inr pg"
    by (auto simp: pageDocuments_def split: sum.splits)
  from r obtain k where "rest = drop k ds" by (auto dest: skipDocuments_Inr)
  with l pos show ?thesis by (auto simp: limitDocuments_nat)
next
  case (QArr xs)
  with ok show ?thesis
    by (auto simp: pageDocuments_def castLimit_def limitDocuments_def split: sum.splits)
next
  case (QObj kvs)
  with ok show ?thesis
    by (auto simp: pageDocuments_def castLimit_def limitDocuments_def split: sum.splits)
qed

lemma pageDocuments_exact:
  assumes ok: "pageDocuments (Num (of_nat k)) (QueryArg v) ds = Inr pg"
    and n: "toNumber v = Num (of_nat n)" and pos: "1 \<le> n"
  shows "pg = take n (drop k ds)"
proof (cases v)
  case (QStr s)
  with n have c: "castLimit (QueryArg v) = Inr (Some (Num (of_nat n)))"
    by (simp add: castLimit_number)
  from ok c pos show ?thesis
    by (simp add: pageDocuments_def skipDocuments_nat limitDocuments_nat)
next
  case (QArr xs)
  with ok show ?thesis
    by (auto simp: pageDocuments_def castLimit_def limitDocuments_def split: sum.splits)
next
  case (QObj kvs)
  with ok show ?thesis
    by (auto simp: pageDocuments_def castLimit_def limitDocuments_def split: sum.splits)
qed

lemma buildQuery_Inr:
  assumes "buildQuery rv m req = Inr p"
  shows "plan_conditions p = listConditions rv m req"
    and "plan_populate p = populateMap req"
    and "buildSortOrder req = Inr (plan_sort p)"
    and "buildFieldSelection m req = Inr (plan_selection p)"
    and "plan_paging p =
          (if shouldPaginate (query req)
           then Some (js_mul (js_sub (argToNumber (pageParam (query req))) (Num 1))
                        (argToNumber (perPageParam (query req))), perPageParam (query req))
           else None)"
  using assms by (auto simp: buildQuery_def Let_def split: sum.splits)

lemma exec_unpaged:
  assumes "exec m p = Inr rs" and "plan_paging p = None"
  shows "length rs = countDocuments m (plan_conditions p)"
  using assms
  by (auto simp: exec_def Let_def countDocuments_def length_sortDocuments split: sum.splits)

lemma exec_paged:
  assumes "exec m p = Inr rs" and "plan_paging p = Some (sk, lm)"
  shows "\<exists>pg. pageDocuments sk lm
            (sortDocuments m (plan_sort p) (filter (matches m (plan_conditions p)) (documents m)))
            = Inr pg \<and> length rs = length pg"
  using assms by (auto simp: exec_def Let_def split: sum.splits)

lemma list_Inr:
  assumes "list rv m req = Inr r"
  shows "\<exists>p. buildQuery rv m req = Inr p \<and> exec m p = Inr (data r)
          \<and> total r = Some (countDocuments m (plan_conditions p))
          \<and> count r = Some (length (data r))
          \<and> http_status r = 200 \<and> code r = 200"
  using assms by (auto simp: list_def Let_def OK_def split: sum.splits)

lemma js_sub_Num: "js_sub (Num a) (Num b) = Num (a - b)"
  by (simp add: js_sub_def js_add_def)

lemma js_mul_Num: "js_mul (Num a) (Num b) = Num (a * b)"
  by (simp add: js_mul_def)


lemma skip_arg_nat:
  assumes "1 \<le> P"
  shows "js_mul (js_sub (Num (of_nat P)) (Num 1)) (Num (of_nat N)) = Num (of_nat ((P - 1) * N))"
proof -
  have "(of_nat ((P - 1) * N) :: rat) = (of_nat P - 1) * of_nat N"
    using assms by (simp add: of_nat_diff)
  then show ?thesis by (simp only: js_sub_Num js_mul_Num)
qed

lemma stringToNumber_empty: "stringToNumber [] = Num 0"
  by (simp add: stringToNumber_def trim_def)

lemma truthy_of_positive:
  assumes "toNumber v = Num (of_nat N)" and "1 \<le> N"
  shows "truthy v"
proof (cases v)
  case (QStr s)
  have "s \<noteq> []"
  proof
    assume "s = []"
    with assms QStr show False by (simp add: toNumber_def stringToNumber_empty)
  qed
  with QStr show ?thesis by simp
qed simp_all

text \<open>
  Claim C2. \<^verbatim>\<open>page\<close> defaults to 1 and \<^verbatim>\<open>perPage\<close> to 10. The query is given
  \<^verbatim>\<open>skip\<close> and \<^verbatim>\<open>limit\<close> only if the request has a \<^verbatim>\<open>perPage\<close>, and then with
  \<^verbatim>\<open>(page - 1) * perPage\<close> and \<^verbatim>\<open>perPage\<close>. Whenever \<^verbatim>\<open>list\<close> answers,
  \<^verbatim>\<open>total\<close> is the number of documents the filter matches, whatever the
  pagination (the filter is the same for every value of \<^verbatim>\<open>page\<close> and \<^verbatim>\<open>perPage\<close>
  when both are reserved names), and \<^verbatim>\<open>count\<close> is the length of the page. Without \<^verbatim>\<open>perPage\<close> the
  page holds every match, so \<^verbatim>\<open>count\<close> equals \<^verbatim>\<open>total\<close>; with a \<^verbatim>\<open>perPage\<close>
  that reads as a number \<open>N \<ge> 1\<close> the page has at most \<open>N\<close> documents, and for page
  \<open>P \<ge> 1\<close> exactly \<open>min N (total - (P - 1) * N)\<close>.
\<close>

theorem list_pagination:
  assumes ok: "list rv m req = Inr r"
  shows "(map_of (query req) ''page'' = None \<longrightarrow> pageParam (query req) = NumArg (Num 1))
   \<and> (map_of (query req) ''perPage'' = None \<longrightarrow> perPageParam (query req) = NumArg (Num 10))
   \<and> (\<exists>p. buildQuery rv m req = Inr p
        \<and> (plan_paging p \<noteq> None \<longrightarrow> map_of (query req) ''perPage'' \<noteq> None)
        \<and> (\<forall>v. map_of (query req) ''perPage'' = Some v \<and> truthy v \<longrightarrow>
              plan_paging p =
                Some (js_mul (js_sub (argToNumber (pageParam (query req))) (Num 1)) (toNumber v),
                      QueryArg v)))
   \<and> total r = Some (length (filter (matches m (listConditions rv m req)) (documents m)))
   \<and> (''page'' \<in> set rv \<and> ''perPage'' \<in> set rv \<longrightarrow>
        (\<forall>pg pp. listConditions rv m
                    (req\<lparr> query := AList.update ''page'' pg
                                       (AList.update ''perPage'' pp (query req)) \<rparr>)
                  = listConditions rv m req))
   \<and> count r = Some (length (data r))
   \<and> (map_of (query req) ''perPage'' = None \<longrightarrow>
        count r = total r
        \<and> length (data r) = length (filter (matches m (listConditions rv m req)) (documents m)))
   \<and> (\<forall>v N. map_of (query req) ''perPage'' = Some v \<and> toNumber v = Num (of_nat N) \<and> 1 \<le> N
          \<longrightarrow> length (data r) \<le> N)
   \<and> (\<forall>v N P. map_of (query req) ''perPage'' = Some v \<and> toNumber v = Num (of_nat N) \<and> 1 \<le> N
            \<and> argToNumber (pageParam (query req)) = Num (of_nat P) \<and> 1 \<le> P
          \<longrightarrow> length (data r)
              = min N (length (filter (matches m (listConditions rv m req)) (documents m))
                       - (P - 1) * N))"
proof -
  let ?q = "query req"
  let ?M = "length (filter (matches m (listConditions rv m req)) (documents m))"
  from list_Inr [OF ok] obtain p where
    bq: "buildQuery rv m req = Inr p" and ex: "exec m p = Inr (data r)"
    and tot: "total r = Some (countDocuments m (plan_conditions p))"
    and cnt: "count r = Some (length (data r))"
    by blast
  note pc = buildQuery_Inr(1) [OF bq]
  note pg = buildQuery_Inr(5) [OF bq]
  have total: "total r = Some ?M" using tot pc by (simp add: countDocuments_def)
  have d1: "map_of ?q ''page'' = None \<longrightarrow> pageParam ?q = NumArg (Num 1)"
    by (simp add: pageParam_def)
  have d2: "map_of ?q ''perPage'' = None \<longrightarrow> perPageParam ?q = NumArg (Num 10)"
    by (simp add: perPageParam_def)
  have only_if: "plan_paging p \<noteq> None \<longrightarrow> map_of ?q ''perPage'' \<noteq> None"
    using pg by (auto simp: shouldPaginate_def split: if_splits option.splits)
  have args: "plan_paging p =
                Some (js_mul (js_sub (argToNumber (pageParam ?q)) (Num 1)) (toNumber v), QueryArg v)"
    if "map_of ?q ''perPage'' = Some v" "truthy v" for v
    using pg that by (simp add: shouldPaginate_def perPageParam_def)
  have unpaged: "length (data r) = ?M" if "map_of ?q ''perPage'' = None"
  proof -
    from pg that have "plan_paging p = None" by (simp add: shouldPaginate_def)
    from exec_unpaged [OF ex this] pc show ?thesis by (simp add: countDocuments_def)
  qed
  have bounded: "length (data r) \<le> N"
    if v: "map_of ?q ''perPage'' = Some v" and n: "toNumber v = Num (of_nat N)" and pos: "1 \<le> N"
    for v N
  proof -
    from args [OF v truthy_of_positive [OF n pos]] obtain sk
      where "plan_paging p = Some (sk, QueryArg v)" by blast
    from exec_paged [OF ex this] obtain pg where
      "pageDocuments sk (QueryArg v)
         (sortDocuments m (plan_sort p) (filter (matches m (plan_conditions p)) (documents m)))
       = Inr pg" and len: "length (data r) = length pg" by blast
    from pageDocuments_limit [OF this(1) n pos] len show ?thesis by auto
  qed
  have exact: "length (data r) = min N (?M - (P - 1) * N)"
    if v: "map_of ?q ''perPage'' = Some v" and n: "toNumber v = Num (of_nat N)" and pos: "1 \<le> N"
      and pn: "argToNumber (pageParam ?q) = Num (of_nat P)" and pp: "1 \<le> P"
    for v N P
  proof -
    have sk: "js_mul (js_sub (argToNumber (pageParam ?q)) (Num 1)) (toNumber v)
        = Num (of_nat ((P - 1) * N))"
      unfolding pn n by (rule skip_arg_nat [OF pp])
    from args [OF v truthy_of_positive [OF n pos]] sk
    have "plan_paging p = Some (Num (of_nat ((P - 1) * N)), QueryArg v)" by simp
    from exec_paged [OF ex this] obtain pg where
      "pageDocuments (Num (of_nat ((P - 1) * N))) (QueryArg v)
         (sortDocuments m (plan_sort p) (filter (matches m (plan_conditions p)) (documents m)))
       = Inr pg" and len: "length (data r) = length pg" by blast
    from pageDocuments_exact [OF this(1) n pos] len pc show ?thesis
      by (simp add: length_sortDocuments)
  qed
  have plan: "\<exists>p. buildQuery rv m req = Inr p
        \<and> (plan_paging p \<noteq> None \<longrightarrow> map_of ?q ''perPage'' \<noteq> None)
        \<and> (\<forall>v. map_of ?q ''perPage'' = Some v \<and> truthy v \<longrightarrow>
              plan_paging p =
                Some (js_mul (js_sub (argToNumber (pageParam ?q)) (Num 1)) (toNumber v),
                      QueryArg v))"
    using bq only_if args by blast
  have c6: "map_of ?q ''perPage'' = None \<longrightarrow> count r = total r \<and> length (data r) = ?M"
    using unpaged cnt total by simp
  have c7: "\<forall>v N. map_of ?q ''perPage'' = Some v \<and> toNumber v = Num (of_nat N) \<and> 1 \<le> N
          \<longrightarrow> length (data r) \<le> N"
    using bounded by blast
  have c8: "\<forall>v N P. map_of ?q ''perPage'' = Some v \<and> toNumber v = Num (of_nat N) \<and> 1 \<le> N
            \<and> argToNumber (pageParam ?q) = Num (of_nat P) \<and> 1 \<le> P
          \<longrightarrow> length (data r) = min N (?M - (P - 1) * N)"
    using exact by blast
  have ind: "''page'' \<in> set rv \<and> ''perPage'' \<in> set rv \<longrightarrow>
        (\<forall>pg pp. listConditions rv m
                    (req\<lparr> query := AList.update ''page'' pg
                                       (AList.update ''perPage'' pp (query req)) \<rparr>)
                  = listConditions rv m req)"
    by (simp add: listConditions_ignores_paging)
  show ?thesis
    by (intro conjI) (rule d1 d2 plan total ind cnt c6 c7 c8)+
qed

text \<open>
  The second page of the two companies, one per page, holds the second company and
  reports a total of 2; without parameters both are returned and the two counts agree.
\<close>

theorem list_pagination_witness:
  "list reservedNames companyModel secondPage
     = Inr \<lparr> http_status = 200, data = [transform companyModel beta], code = 200,
             message = ''Resource retrieved successfully'', count = Some 1, total = Some 2 \<rparr>
   \<and> map_of (query secondPage) ''perPage'' = Some (QStr ''1'')
   \<and> toNumber (QStr ''1'') = Num (of_nat 1)
   \<and> argToNumber (pageParam (query secondPage)) = Num (of_nat 2)
   \<and> length [transform companyModel beta] \<le> 1
   \<and> length [transform companyModel beta]
       = min 1 (length (filter (matches companyModel (listConditions reservedNames companyModel secondPage))
                          (documents companyModel)) - (2 - 1) * 1)
   \<and> list reservedNames companyModel (listRequest [])
     = Inr \<lparr> http_status = 200, data = [transform companyModel acme, transform companyModel beta],
             code = 200, message = ''Resource retrieved successfully'',
             count = Some 2, total = Some 2 \<rparr>
   \<and> map_of (query (listRequest [])) ''perPage'' = None
   \<and> pageParam (query (listRequest [])) = NumArg (Num 1)
   \<and> perPageParam (query (listRequest [])) = NumArg (Num 10)
   \<and> ''page'' \<in> set reservedNames \<and> ''perPage'' \<in> set reservedNames
   \<and> listConditions reservedNames companyModel
         (secondPage\<lparr> query := AList.update ''page'' (QStr ''7'')
                                   (AList.update ''perPage'' (QStr ''3'') (query secondPage)) \<rparr>)
       = listConditions reservedNames companyModel secondPage"
proof -
  let ?r1 = "\<lparr> http_status = 200, data = [transform companyModel beta], code = 200,
             message = ''Resource retrieved successfully'', count = Some 1, total = Some 2 \<rparr>"
  let ?r0 = "\<lparr> http_status = 200, data = [transform companyModel acme, transform companyModel beta],
             code = 200, message = ''Resource retrieved successfully'',
             count = Some 2, total = Some 2 \<rparr>"
  have ok1: "list reservedNames companyModel secondPage = Inr ?r1" by code_simp
  have ok0: "list reservedNames companyModel (listRequest []) = Inr ?r0" by code_simp
  have v: "map_of (query secondPage) ''perPage'' = Some (QStr ''1'')"
    by (simp add: secondPage_def listRequest_def)
  have n: "toNumber (QStr ''1'') = Num (of_nat 1)" by code_simp
  have pn: "argToNumber (pageParam (query secondPage)) = Num (of_nat 2)" by code_simp
  have a: "map_of (query (listRequest [])) ''perPage'' = None" "map_of (query (listRequest [])) ''page'' = None"
    by (simp_all add: listRequest_def)
  from list_pagination [OF ok1] v n pn
  have b: "length (data ?r1) \<le> 1"
    and c: "length (data ?r1)
       = min 1 (length (filter (matches companyModel (listConditions reservedNames companyModel secondPage))
                          (documents companyModel)) - (2 - 1) * 1)"
    by (blast, metis le_refl one_le_numeral)
  from list_pagination [OF ok0] a
  have d: "pageParam (query (listRequest [])) = NumArg (Num 1)"
    "perPageParam (query (listRequest [])) = NumArg (Num 10)"
    by blast+
  have res: "''page'' \<in> set reservedNames" "''perPage'' \<in> set reservedNames"
    by (simp_all add: reservedNames_def)
  from list_pagination [OF ok1] res
  have e: "listConditions reservedNames companyModel
         (secondPage\<lparr> query := AList.update ''page'' (QStr ''7'')
                                   (AList.update ''perPage'' (QStr ''3'') (query secondPage)) \<rparr>)
       = listConditions reservedNames companyModel secondPage"
    by blast
  from ok1 v n pn b c ok0 a(1) d res e show ?thesis by simp
qed



section \<open>Malformed directives\<close>

lemma getFieldAsArray_string: "\<exists>r. getFieldAsArray (Some (QStr s)) = Inr r"
  by (simp add: getFieldAsArray_def)


















end
